theory Spec2Isabelle
  imports Main
begin

section \<open>Data model (auth.types.ts, auth.model.ts, auth.constants.ts)\<close>

text \<open>The role enumeration \<^verbatim>\<open>UserRole\<close> of auth.types.ts.\<close>

datatype UserRole = SUPER_ADMIN | HR | MANAGER | EMPLOYEE

text \<open>The interface \<^verbatim>\<open>JWTPayload\<close>: the claims put into an access token.\<close>

record JWTPayload =
  userId :: string
  email :: string
  role :: UserRole

text \<open>
  The two object shapes the service hands to \<^verbatim>\<open>jwt.sign\<close>: the full
  \<^verbatim>\<open>JWTPayload\<close> (access token) and \<^verbatim>\<open>{ userId }\<close> (refresh token).
\<close>

datatype jwt_claims = AccessClaims JWTPayload | RefreshClaims string

fun claims_userId :: "jwt_claims \<Rightarrow> string" where
  "claims_userId (AccessClaims p) = userId p"
| "claims_userId (RefreshClaims u) = u"

text \<open>
  What \<^verbatim>\<open>jwt.verify\<close> returns: the signed claims together with the
  issued-at and expiry fields (seconds) that \<^verbatim>\<open>jwt.sign\<close> added.
\<close>

record decoded_jwt =
  claims :: jwt_claims
  iat :: nat
  exp :: nat

text \<open>
  Tokens are modelled symbolically. \<open>Signed k d\<close> stands for the compact
  serialisation of the content \<open>d\<close> with a signature made under the secret \<open>k\<close>;
  \<open>Malformed s\<close> is any string that does not parse as a token. Two token strings
  are equal exactly when the symbolic tokens are, and a signature checks under a
  secret exactly when it was made with it.
\<close>

datatype jwt = Malformed string | Signed string decoded_jwt

text \<open>
  The error classes of the \<^verbatim>\<open>jsonwebtoken\<close> package and JavaScript's
  \<^verbatim>\<open>Error\<close>. In the package \<^verbatim>\<open>TokenExpiredError\<close> and
  \<^verbatim>\<open>NotBeforeError\<close> are subclasses of \<^verbatim>\<open>JsonWebTokenError\<close>,
  which is a subclass of \<^verbatim>\<open>Error\<close>; \<open>instanceof\<close> follows that chain.
\<close>

datatype error_class = Error | JsonWebTokenError | TokenExpiredError | NotBeforeError

datatype thrown = Thrown (err_class: error_class) (message: string)

fun subclass_of :: "error_class \<Rightarrow> error_class \<Rightarrow> bool" where
  "subclass_of Error c = (c = Error)"
| "subclass_of JsonWebTokenError c = (c = JsonWebTokenError \<or> c = Error)"
| "subclass_of TokenExpiredError c =
     (c = TokenExpiredError \<or> c = JsonWebTokenError \<or> c = Error)"
| "subclass_of NotBeforeError c =
     (c = NotBeforeError \<or> c = JsonWebTokenError \<or> c = Error)"

definition instanceof :: "thrown \<Rightarrow> error_class \<Rightarrow> bool" where
  "instanceof e c = subclass_of (err_class e) c"

text \<open>
  \<^verbatim>\<open>jwt.sign(payload, secret, { expiresIn })\<close> at clock time \<open>now\<close> (seconds)
  and \<^verbatim>\<open>jwt.verify(token, secret)\<close>: the package parses the token, checks
  the signature, then the expiry (expired when the clock has reached \<open>exp\<close>).
\<close>

definition jwt_sign :: "jwt_claims \<Rightarrow> string \<Rightarrow> nat \<Rightarrow> nat \<Rightarrow> jwt" where
  "jwt_sign payload secret expiresIn now =
     Signed secret \<lparr>claims = payload, iat = now, exp = now + expiresIn\<rparr>"

fun jwt_verify :: "jwt \<Rightarrow> string \<Rightarrow> nat \<Rightarrow> thrown + decoded_jwt" where
  "jwt_verify (Malformed s) secret now = Inl (Thrown JsonWebTokenError ''jwt malformed'')"
| "jwt_verify (Signed k d) secret now =
     (if k \<noteq> secret then Inl (Thrown JsonWebTokenError ''invalid signature'')
      else if exp d \<le> now then Inl (Thrown TokenExpiredError ''jwt expired'')
      else Inr d)"

text \<open>The constants of auth.constants.ts; the lifetimes '15m' and '7d' in seconds.\<close>

definition ACCESS_TOKEN :: nat where
  "ACCESS_TOKEN = 15 * 60"

definition REFRESH_TOKEN :: nat where
  "REFRESH_TOKEN = 7 * 24 * 60 * 60"

definition INVALID_CREDENTIALS :: string where
  "INVALID_CREDENTIALS = ''Invalid email or password''"

definition USER_NOT_FOUND :: string where
  "USER_NOT_FOUND = ''Invalid email or password''"

definition USER_INACTIVE :: string where
  "USER_INACTIVE = ''Account is inactive. Please contact administrator''"

definition TOKEN_EXPIRED :: string where
  "TOKEN_EXPIRED = ''Token has expired''"

definition TOKEN_INVALID :: string where
  "TOKEN_INVALID = ''Invalid token''"

definition REFRESH_TOKEN_INVALID :: string where
  "REFRESH_TOKEN_INVALID = ''Invalid refresh token''"

definition UNAUTHORIZED :: string where
  "UNAUTHORIZED = ''Unauthorized access''"

definition FORBIDDEN :: string where
  "FORBIDDEN = ''Insufficient permissions''"

text \<open>The two signing secrets of the validated environment (config/env).\<close>

record env =
  JWT_SECRET :: string
  JWT_REFRESH_SECRET :: string

text \<open>
  The user document \<^verbatim>\<open>IUser\<close>: \<open>doc_id\<close> is \<^verbatim>\<open>_id\<close>, the other fields
  carry the source's names behind the prefix \<open>doc_\<close>. \<open>doc_password\<close> is the
  stored hash; \<open>doc_refreshToken\<close> is optional, as in the schema. The
  timestamps play no part in the operations below and are left out.
\<close>

record IUser =
  doc_id :: string
  doc_email :: string
  doc_password :: string
  doc_role :: UserRole
  doc_isActive :: bool
  doc_refreshToken :: "jwt option"

text \<open>
  The \<^verbatim>\<open>User\<close> collection is the list of its documents. The queries the
  service uses: \<^verbatim>\<open>findOne({ email })\<close>, \<^verbatim>\<open>findById\<close>,
  \<^verbatim>\<open>user.save()\<close> (writes the document back under its \<^verbatim>\<open>_id\<close>) and
  \<^verbatim>\<open>findByIdAndUpdate(id, { $unset: { refreshToken: 1 } })\<close> (changes the
  document with that id when there is one, and nothing otherwise).
\<close>

type_synonym collection = "IUser list"

definition findOne :: "collection \<Rightarrow> string \<Rightarrow> IUser option" where
  "findOne db e = find (\<lambda>u. doc_email u = e) db"

definition findById :: "collection \<Rightarrow> string \<Rightarrow> IUser option" where
  "findById db i = find (\<lambda>u. doc_id u = i) db"

fun update_one :: "string \<Rightarrow> (IUser \<Rightarrow> IUser) \<Rightarrow> collection \<Rightarrow> collection" where
  "update_one i f [] = []"
| "update_one i f (u # us) = (if doc_id u = i then f u # us else u # update_one i f us)"

definition save :: "IUser \<Rightarrow> collection \<Rightarrow> collection" where
  "save doc db = update_one (doc_id doc) (\<lambda>_. doc) db"

definition unset_refreshToken :: "string \<Rightarrow> collection \<Rightarrow> collection" where
  "unset_refreshToken i db = update_one i (\<lambda>u. u\<lparr>doc_refreshToken := None\<rparr>) db"

section \<open>Request Authenticator and Role Authorizer (middlewares)\<close>

text \<open>
  What a middleware does with a request: call \<^verbatim>\<open>next()\<close> (with the value
  it attached to the request), answer with a status and an error message, or pass an
  error on with \<^verbatim>\<open>next(error)\<close>.
\<close>

datatype 'a handled = Next 'a | Json nat string | NextError thrown

text \<open>
  The \<^verbatim>\<open>Authorization\<close> header value, split where the middleware splits it:
  \<open>prefix7\<close> is its first seven characters and \<open>credentials\<close> is
  \<^verbatim>\<open>authHeader.substring(7)\<close> read as a token.
\<close>

record authorization =
  prefix7 :: string
  credentials :: jwt

text \<open>
  \<^verbatim>\<open>authenticate\<close> at clock time \<open>now\<close>. On success it attaches the value
  that \<^verbatim>\<open>jwt.verify\<close> returned, as it is (the cast to
  \<^verbatim>\<open>JWTPayload\<close> does nothing at run time). The \<^verbatim>\<open>catch\<close> tests
  the thrown error against \<^verbatim>\<open>JsonWebTokenError\<close> first and against
  \<^verbatim>\<open>TokenExpiredError\<close> second, in the order of the source.
\<close>

definition authenticate :: "env \<Rightarrow> nat \<Rightarrow> authorization option \<Rightarrow> decoded_jwt handled" where
  "authenticate cfg now authHeader =
     (case authHeader of
        None \<Rightarrow> Json 401 UNAUTHORIZED
      | Some h \<Rightarrow>
          if prefix7 h \<noteq> ''Bearer '' then Json 401 UNAUTHORIZED
          else (case jwt_verify (credentials h) (JWT_SECRET cfg) now of
                  Inr decoded \<Rightarrow> Next decoded
                | Inl error \<Rightarrow>
                    if instanceof error JsonWebTokenError then Json 401 TOKEN_INVALID
                    else if instanceof error TokenExpiredError then Json 401 TOKEN_EXPIRED
                    else NextError error))"

text \<open>
  \<^verbatim>\<open>requireRole(...allowedRoles)\<close> applied to \<^verbatim>\<open>req.user\<close>, and the
  predefined gates of rbac.middleware.ts.
\<close>

definition requireRole :: "UserRole list \<Rightarrow> JWTPayload option \<Rightarrow> unit handled" where
  "requireRole allowedRoles req_user =
     (case req_user of
        None \<Rightarrow> Json 401 UNAUTHORIZED
      | Some u \<Rightarrow>
          if role u \<notin> set allowedRoles then Json 403 FORBIDDEN
          else Next ())"

definition requireSuperAdmin :: "JWTPayload option \<Rightarrow> unit handled" where
  "requireSuperAdmin = requireRole [SUPER_ADMIN]"

definition requireHR :: "JWTPayload option \<Rightarrow> unit handled" where
  "requireHR = requireRole [HR, SUPER_ADMIN]"

definition requireManager :: "JWTPayload option \<Rightarrow> unit handled" where
  "requireManager = requireRole [MANAGER, HR, SUPER_ADMIN]"

definition requireEmployee :: "JWTPayload option \<Rightarrow> unit handled" where
  "requireEmployee = requireRole [EMPLOYEE, MANAGER, HR, SUPER_ADMIN]"

section \<open>Session Manager (auth.service.ts)\<close>

definition generateAccessToken :: "env \<Rightarrow> nat \<Rightarrow> JWTPayload \<Rightarrow> jwt" where
  "generateAccessToken cfg now payload =
     jwt_sign (AccessClaims payload) (JWT_SECRET cfg) ACCESS_TOKEN now"

definition generateRefreshToken :: "env \<Rightarrow> nat \<Rightarrow> string \<Rightarrow> jwt" where
  "generateRefreshToken cfg now uid =
     jwt_sign (RefreshClaims uid) (JWT_REFRESH_SECRET cfg) REFRESH_TOKEN now"

record LoginInput =
  in_email :: string
  in_password :: string

record PublicUser =
  pub_id :: string
  pub_email :: string
  pub_role :: UserRole

record LoginResponse =
  accessToken :: jwt
  refreshToken :: jwt
  user :: PublicUser

text \<open>
  \<^verbatim>\<open>loginUser\<close>, on the validated request body. \<open>compare\<close> is
  \<^verbatim>\<open>bcrypt.compare(candidate, hash)\<close>, which \<^verbatim>\<open>comparePassword\<close>
  calls on the stored hash; \<open>now\<close> is the clock (seconds) at which both tokens
  are signed. The result is the thrown error, or the response with the collection
  after \<^verbatim>\<open>user.save()\<close>.
\<close>

definition loginUser ::
  "(string \<Rightarrow> string \<Rightarrow> bool) \<Rightarrow> env \<Rightarrow> nat \<Rightarrow> collection \<Rightarrow> LoginInput
     \<Rightarrow> thrown + (LoginResponse \<times> collection)" where
  "loginUser compare cfg now db input =
     (case findOne db (in_email input) of
        None \<Rightarrow> Inl (Thrown Error INVALID_CREDENTIALS)
      | Some u \<Rightarrow>
          if \<not> doc_isActive u then Inl (Thrown Error USER_INACTIVE)
          else if \<not> compare (in_password input) (doc_password u)
            then Inl (Thrown Error INVALID_CREDENTIALS)
          else
            (let payload = \<lparr>userId = doc_id u, email = doc_email u, role = doc_role u\<rparr>;
                 access = generateAccessToken cfg now payload;
                 refresh = generateRefreshToken cfg now (doc_id u);
                 u' = u\<lparr>doc_refreshToken := Some refresh\<rparr>
             in Inr (\<lparr>accessToken = access, refreshToken = refresh,
                      user = \<lparr>pub_id = doc_id u, pub_email = doc_email u, pub_role = doc_role u\<rparr>\<rparr>,
                     save u' db)))"

text \<open>
  \<^verbatim>\<open>refreshAccessToken\<close>: the body of the \<^verbatim>\<open>try\<close> block, and the
  \<^verbatim>\<open>catch\<close> that rewrites every \<^verbatim>\<open>JsonWebTokenError\<close> and rethrows
  the rest.
\<close>

definition refresh_try :: "env \<Rightarrow> nat \<Rightarrow> collection \<Rightarrow> jwt \<Rightarrow> thrown + jwt" where
  "refresh_try cfg now db presented =
     (case jwt_verify presented (JWT_REFRESH_SECRET cfg) now of
        Inl error \<Rightarrow> Inl error
      | Inr decoded \<Rightarrow>
          (case findById db (claims_userId (claims decoded)) of
             None \<Rightarrow> Inl (Thrown Error USER_INACTIVE)
           | Some u \<Rightarrow>
               if \<not> doc_isActive u then Inl (Thrown Error USER_INACTIVE)
               else if doc_refreshToken u \<noteq> Some presented
                 then Inl (Thrown Error REFRESH_TOKEN_INVALID)
               else Inr (generateAccessToken cfg now
                     \<lparr>userId = doc_id u, email = doc_email u, role = doc_role u\<rparr>)))"

definition refreshAccessToken :: "env \<Rightarrow> nat \<Rightarrow> collection \<Rightarrow> jwt \<Rightarrow> thrown + jwt" where
  "refreshAccessToken cfg now db presented =
     (case refresh_try cfg now db presented of
        Inr token \<Rightarrow> Inr token
      | Inl error \<Rightarrow>
          if instanceof error JsonWebTokenError then Inl (Thrown Error REFRESH_TOKEN_INVALID)
          else Inl error)"

text \<open>
  \<^verbatim>\<open>logoutUser\<close>: the promise resolves with the collection after the
  \<^verbatim>\<open>$unset\<close>; the function has no \<^verbatim>\<open>throw\<close>.
\<close>

definition logoutUser :: "collection \<Rightarrow> string \<Rightarrow> thrown + collection" where
  "logoutUser db uid = Inr (unset_refreshToken uid db)"

section \<open>Example data\<close>

definition example_env :: env where
  "example_env = \<lparr>JWT_SECRET = ''access-secret-of-32-characters--'',
                   JWT_REFRESH_SECRET = ''refresh-secret-of-32-characters-''\<rparr>"

definition example_compare :: "string \<Rightarrow> string \<Rightarrow> bool" where
  "example_compare candidate hash = (hash = ''hashed:'' @ candidate)"

definition alice_claims :: JWTPayload where
  "alice_claims = \<lparr>userId = ''65a1'', email = ''alice@example.com'', role = EMPLOYEE\<rparr>"

definition bob :: IUser where
  "bob = \<lparr>doc_id = ''65b2'', doc_email = ''bob@example.com'',
          doc_password = ''hashed:Secret#123'', doc_role = MANAGER,
          doc_isActive = False, doc_refreshToken = None\<rparr>"

definition carol :: IUser where
  "carol = \<lparr>doc_id = ''65c3'', doc_email = ''carol@example.com'',
            doc_password = ''hashed:Passw0rd!x'', doc_role = HR,
            doc_isActive = True, doc_refreshToken = None\<rparr>"

text \<open>A request header \<^verbatim>\<open>Authorization: Bearer <token>\<close>.\<close>

definition bearer :: "jwt \<Rightarrow> authorization option" where
  "bearer t = Some \<lparr>prefix7 = ''Bearer '', credentials = t\<rparr>"

section \<open>Facts about the collection and the token library\<close>

lemma findById_update_one:
  "(\<And>x. doc_id x = i \<Longrightarrow> doc_id (f x) = i) \<Longrightarrow>
   findById (update_one i f db) j =
     (if j = i then map_option f (findById db i) else findById db j)"
  by (induction db) (auto simp: findById_def)

lemma update_one_twice:
  "(\<And>x. doc_id x = i \<Longrightarrow> doc_id (f x) = i \<and> f (f x) = f x) \<Longrightarrow>
   update_one i f (update_one i f db) = update_one i f db"
  by (induction db) auto

lemma findById_Some_id: "findById db i = Some u \<Longrightarrow> doc_id u = i"
  unfolding findById_def by (induction db) (auto split: if_splits)

lemma findOne_Some_email: "findOne db e = Some u \<Longrightarrow> doc_email u = e"
  unfolding findOne_def by (induction db) (auto split: if_splits)

lemma findOne_Some_id: "findOne db e = Some u \<Longrightarrow> findById db (doc_id u) \<noteq> None"
  unfolding findOne_def findById_def by (induction db) (auto split: if_splits)

lemma findOne_save:
  "findOne db e = Some u \<Longrightarrow> doc_email u' = e \<Longrightarrow> doc_id u' = doc_id u \<Longrightarrow>
   findOne (save u' db) e = Some u'"
  unfolding findOne_def save_def by (induction db) (auto split: if_splits)

lemma findById_save:
  "findOne db e = Some u \<Longrightarrow> doc_id u' = doc_id u \<Longrightarrow>
   findById (save u' db) (doc_id u) = Some u'"
  using findOne_Some_id [of db e u]
  by (auto simp: save_def findById_update_one)

text \<open>Every error \<^verbatim>\<open>jwt.verify\<close> throws is a \<^verbatim>\<open>JsonWebTokenError\<close>.\<close>

lemma jwt_verify_error_class:
  "jwt_verify t s now = Inl e \<Longrightarrow> instanceof e JsonWebTokenError"
  by (cases t) (auto simp: instanceof_def split: if_splits)

section \<open>The Request Authenticator\<close>

lemma authenticate_bearer:
  "authenticate cfg now (bearer t) =
     (case jwt_verify t (JWT_SECRET cfg) now of
        Inr d \<Rightarrow> Next d | Inl e \<Rightarrow> Json 401 TOKEN_INVALID)"
  by (auto simp: authenticate_def bearer_def split: sum.splits dest: jwt_verify_error_class)

text \<open>
  Whatever the header and the clock, the middleware never answers with the
  \<^verbatim>\<open>TOKEN_EXPIRED\<close> message.
\<close>

lemma authenticate_never_reports_expiry:
  "authenticate cfg now authHeader \<noteq> Json status TOKEN_EXPIRED"
  by (auto simp: authenticate_def UNAUTHORIZED_def TOKEN_INVALID_def TOKEN_EXPIRED_def
      split: option.splits sum.splits dest: jwt_verify_error_class)

text \<open>
  C1. The claim asks that an expired, correctly signed access token is answered with
  'Token has expired'. Evaluated on a token issued at second 0 and presented at second
  900, when \<^verbatim>\<open>jwt.verify\<close> throws \<^verbatim>\<open>TokenExpiredError\<close>, the middleware
  answers 401 'Invalid token': the \<^verbatim>\<open>instanceof jwt.JsonWebTokenError\<close> test
  comes first and holds for the subclass, so the branch for
  \<^verbatim>\<open>TokenExpiredError\<close> is never taken.
\<close>

theorem authenticate_expired_token:
  "jwt_verify (generateAccessToken example_env 0 alice_claims) (JWT_SECRET example_env) 900
     = Inl (Thrown TokenExpiredError ''jwt expired'')
   \<and> authenticate example_env 900 (bearer (generateAccessToken example_env 0 alice_claims))
     = Json 401 ''Invalid token''"
  by (simp add: authenticate_def bearer_def generateAccessToken_def jwt_sign_def
      ACCESS_TOKEN_def example_env_def instanceof_def TOKEN_INVALID_def)

text \<open>
  C6. An access token issued at \<open>now\<close> for the claims \<open>p\<close> verifies, at every
  time before its expiry \<open>now + 900\<close>, to exactly \<open>p\<close> with the issued-at and
  expiry fields added, and the authenticator attaches that value to the request; at
  every time from the expiry on, verification yields the expired outcome.
\<close>

theorem access_token_roundtrip:
  "(t < now + ACCESS_TOKEN \<longrightarrow>
      jwt_verify (generateAccessToken cfg now p) (JWT_SECRET cfg) t
        = Inr \<lparr>claims = AccessClaims p, iat = now, exp = now + ACCESS_TOKEN\<rparr>
      \<and> authenticate cfg t (bearer (generateAccessToken cfg now p))
        = Next \<lparr>claims = AccessClaims p, iat = now, exp = now + ACCESS_TOKEN\<rparr>)
   \<and> (now + ACCESS_TOKEN \<le> t \<longrightarrow>
      jwt_verify (generateAccessToken cfg now p) (JWT_SECRET cfg) t
        = Inl (Thrown TokenExpiredError ''jwt expired''))"
  by (simp add: authenticate_bearer generateAccessToken_def jwt_sign_def)

theorem access_token_roundtrip_witness:
  "jwt_verify (generateAccessToken example_env 100 alice_claims) (JWT_SECRET example_env) 999
     = Inr \<lparr>claims = AccessClaims alice_claims, iat = 100, exp = 1000\<rparr>
   \<and> jwt_verify (generateAccessToken example_env 100 alice_claims) (JWT_SECRET example_env) 1000
     = Inl (Thrown TokenExpiredError ''jwt expired'')"
  using access_token_roundtrip [of 999 100 example_env alice_claims]
    access_token_roundtrip [of 1000 100 example_env alice_claims]
  by (simp add: ACCESS_TOKEN_def)

section \<open>The Role Authorizer\<close>

text \<open>
  C5. Without attached claims the gate answers 401 (unauthorized), never 403; with
  claims whose role is not in the allow-list it answers 403 (forbidden); with claims
  whose role is in the list the request goes on. Only membership in the list counts:
  the HR gate lets through exactly the roles HR and SUPER_ADMIN.
\<close>

theorem requireRole_gate:
  "requireRole R None = Json 401 UNAUTHORIZED
   \<and> (role u \<notin> set R \<longrightarrow> requireRole R (Some u) = Json 403 FORBIDDEN)
   \<and> (role u \<in> set R \<longrightarrow> requireRole R (Some u) = Next ())
   \<and> (requireHR (Some u) = Next () \<longleftrightarrow> role u = HR \<or> role u = SUPER_ADMIN)"
  by (auto simp: requireRole_def requireHR_def)

theorem requireRole_gate_witness:
  "requireRole [MANAGER, HR, SUPER_ADMIN] (Some alice_claims) = Json 403 FORBIDDEN
   \<and> requireRole [EMPLOYEE, MANAGER] (Some alice_claims) = Next ()
   \<and> requireHR (Some alice_claims) \<noteq> Next ()"
  using requireRole_gate [of "[MANAGER, HR, SUPER_ADMIN]" alice_claims]
    requireRole_gate [of "[EMPLOYEE, MANAGER]" alice_claims]
  by (simp add: alice_claims_def)

section \<open>The Session Manager\<close>

lemma loginUser_success:
  assumes "findOne db (in_email input) = Some u" "doc_isActive u"
    "compare (in_password input) (doc_password u)"
  shows "loginUser compare cfg now db input =
     Inr (\<lparr>accessToken = generateAccessToken cfg now
               \<lparr>userId = doc_id u, email = doc_email u, role = doc_role u\<rparr>,
            refreshToken = generateRefreshToken cfg now (doc_id u),
            user = \<lparr>pub_id = doc_id u, pub_email = doc_email u, pub_role = doc_role u\<rparr>\<rparr>,
          save (u\<lparr>doc_refreshToken := Some (generateRefreshToken cfg now (doc_id u))\<rparr>) db)"
  using assms by (simp add: loginUser_def Let_def)

lemma loginUser_Inr:
  assumes "loginUser compare cfg now db input = Inr (r, db')"
  obtains u where "findOne db (in_email input) = Some u" "doc_isActive u"
    "compare (in_password input) (doc_password u)"
  using assms by (auto simp: loginUser_def Let_def split: option.splits if_splits)

lemma refresh_verify_failure:
  "jwt_verify t (JWT_REFRESH_SECRET cfg) now = Inl e \<Longrightarrow>
   refreshAccessToken cfg now db t = Inl (Thrown Error REFRESH_TOKEN_INVALID)"
  by (simp add: refreshAccessToken_def refresh_try_def jwt_verify_error_class)

lemma refresh_verified:
  "jwt_verify t (JWT_REFRESH_SECRET cfg) now = Inr d \<Longrightarrow>
   refreshAccessToken cfg now db t =
     (case findById db (claims_userId (claims d)) of
        None \<Rightarrow> Inl (Thrown Error USER_INACTIVE)
      | Some u \<Rightarrow>
          if \<not> doc_isActive u then Inl (Thrown Error USER_INACTIVE)
          else if doc_refreshToken u \<noteq> Some t then Inl (Thrown Error REFRESH_TOKEN_INVALID)
          else Inr (generateAccessToken cfg now
                 \<lparr>userId = doc_id u, email = doc_email u, role = doc_role u\<rparr>))"
  by (simp add: refreshAccessToken_def refresh_try_def instanceof_def split: option.splits)

lemma refresh_token_verify:
  "jwt_verify (generateRefreshToken cfg t0 uid) (JWT_REFRESH_SECRET cfg) now =
     (if t0 + REFRESH_TOKEN \<le> now then Inl (Thrown TokenExpiredError ''jwt expired'')
      else Inr \<lparr>claims = RefreshClaims uid, iat = t0, exp = t0 + REFRESH_TOKEN\<rparr>)"
  by (simp add: generateRefreshToken_def jwt_sign_def)

text \<open>
  C3. When the e-mail finds an active account and the password compares equal to its
  hash, login succeeds; the access token verifies (at any time before its expiry) to
  exactly the account's id, e-mail and role; the refresh token is the one issued for
  the account's id, and after the call the account's document is the old one with its
  refresh token replaced by the new one, whatever it held before; the returned view
  has the three fields id, e-mail and role of the account and no other field.
\<close>

theorem login_success:
  assumes "findOne db (in_email input) = Some u" and "doc_isActive u"
    and "compare (in_password input) (doc_password u)"
  shows "\<exists>resp db'. loginUser compare cfg now db input = Inr (resp, db')
     \<and> (\<forall>t < now + ACCESS_TOKEN.
          map_sum (\<lambda>e. e) claims (jwt_verify (accessToken resp) (JWT_SECRET cfg) t)
            = Inr (AccessClaims \<lparr>userId = doc_id u, email = doc_email u, role = doc_role u\<rparr>))
     \<and> refreshToken resp = generateRefreshToken cfg now (doc_id u)
     \<and> findById db' (doc_id u) = Some (u\<lparr>doc_refreshToken := Some (refreshToken resp)\<rparr>)
     \<and> user resp = \<lparr>pub_id = doc_id u, pub_email = doc_email u, pub_role = doc_role u\<rparr>"
  using assms
  by (simp add: loginUser_success findById_save [of db "in_email input"]
      generateAccessToken_def jwt_sign_def)

theorem login_success_witness:
  "\<exists>resp db'. loginUser example_compare example_env 100
        [bob, carol\<lparr>doc_refreshToken := Some (Malformed ''old'')\<rparr>]
        \<lparr>in_email = ''carol@example.com'', in_password = ''Passw0rd!x''\<rparr> = Inr (resp, db')
     \<and> map_sum (\<lambda>e. e) claims (jwt_verify (accessToken resp) (JWT_SECRET example_env) 999)
         = Inr (AccessClaims \<lparr>userId = ''65c3'', email = ''carol@example.com'', role = HR\<rparr>)
     \<and> map_option doc_refreshToken (findById db' ''65c3'') = Some (Some (refreshToken resp))
     \<and> user resp = \<lparr>pub_id = ''65c3'', pub_email = ''carol@example.com'', pub_role = HR\<rparr>"
proof -
  let ?u = "carol\<lparr>doc_refreshToken := Some (Malformed ''old'')\<rparr>"
  let ?input = "\<lparr>in_email = ''carol@example.com'', in_password = ''Passw0rd!x''\<rparr>"
  have f: "findOne [bob, ?u] (in_email ?input) = Some ?u"
    by (simp add: findOne_def bob_def carol_def)
  have a: "doc_isActive ?u" by (simp add: carol_def)
  have c: "example_compare (in_password ?input) (doc_password ?u)"
    by (simp add: example_compare_def carol_def)
  have i: "doc_id ?u = ''65c3''" "doc_email ?u = ''carol@example.com''" "doc_role ?u = HR"
    by (simp_all add: carol_def)
  have "(999::nat) < 100 + ACCESS_TOKEN" by (simp add: ACCESS_TOKEN_def)
  with login_success [where compare = example_compare and cfg = example_env and now = 100,
      OF f a c] i show ?thesis
    by fastforce
qed

text \<open>
  C4, as the code has it. For an active stored account and a password that does not
  compare equal to its hash, login throws the same error, with the same message, as
  login with an e-mail that finds no account. For a stored account that is not active
  the check of the active flag comes first: login throws the inactive-account error
  whatever the password is, and that error differs from the one for an unknown e-mail.
\<close>

theorem login_failure_indistinguishable:
  "(findOne db e = Some u \<and> doc_isActive u \<and> \<not> compare pw (doc_password u)
      \<and> findOne db e' = None \<longrightarrow>
        loginUser compare cfg now db \<lparr>in_email = e, in_password = pw\<rparr>
           = Inl (Thrown Error INVALID_CREDENTIALS)
      \<and> loginUser compare cfg now' db \<lparr>in_email = e', in_password = pw'\<rparr>
           = Inl (Thrown Error INVALID_CREDENTIALS)
      \<and> INVALID_CREDENTIALS = USER_NOT_FOUND)
   \<and> (findOne db e = Some u \<and> \<not> doc_isActive u \<longrightarrow>
        loginUser compare cfg now db \<lparr>in_email = e, in_password = pw\<rparr>
           = Inl (Thrown Error USER_INACTIVE)
      \<and> Thrown Error USER_INACTIVE \<noteq> Thrown Error INVALID_CREDENTIALS)"
  by (simp add: loginUser_def INVALID_CREDENTIALS_def USER_NOT_FOUND_def USER_INACTIVE_def)

theorem login_failure_indistinguishable_witness:
  "loginUser example_compare example_env 100 [bob, carol]
       \<lparr>in_email = ''carol@example.com'', in_password = ''guess''\<rparr>
     = loginUser example_compare example_env 100 [bob, carol]
       \<lparr>in_email = ''nobody@example.com'', in_password = ''guess''\<rparr>
   \<and> example_compare ''Secret#123'' (doc_password bob)
   \<and> loginUser example_compare example_env 100 [bob, carol]
       \<lparr>in_email = ''bob@example.com'', in_password = ''Secret#123''\<rparr>
     = Inl (Thrown Error ''Account is inactive. Please contact administrator'')
   \<and> loginUser example_compare example_env 100 [bob, carol]
       \<lparr>in_email = ''bob@example.com'', in_password = ''guess''\<rparr>
     = Inl (Thrown Error ''Account is inactive. Please contact administrator'')"
proof -
  have f: "findOne [bob, carol] ''carol@example.com'' = Some carol"
    by (simp add: findOne_def bob_def carol_def)
  have a: "doc_isActive carol" by (simp add: carol_def)
  have c: "\<not> example_compare ''guess'' (doc_password carol)"
    by (simp add: example_compare_def carol_def)
  have n: "findOne [bob, carol] ''nobody@example.com'' = None"
    by (simp add: findOne_def bob_def carol_def)
  have fb: "findOne [bob, carol] ''bob@example.com'' = Some bob"
    by (simp add: findOne_def bob_def)
  have ib: "\<not> doc_isActive bob" by (simp add: bob_def)
  have cb: "example_compare ''Secret#123'' (doc_password bob)"
    by (simp add: example_compare_def bob_def)
  note A = login_failure_indistinguishable [where compare = example_compare
      and cfg = example_env and now = 100 and now' = 100 and db = "[bob, carol]"
      and e = "''carol@example.com''" and u = carol and pw = "''guess''"
      and e' = "''nobody@example.com''" and pw' = "''guess''"]
  note B = login_failure_indistinguishable [where compare = example_compare
      and cfg = example_env and now = 100 and db = "[bob, carol]"
      and e = "''bob@example.com''" and u = bob and pw = "''Secret#123''"]
  note C = login_failure_indistinguishable [where compare = example_compare
      and cfg = example_env and now = 100 and db = "[bob, carol]"
      and e = "''bob@example.com''" and u = bob and pw = "''guess''"]
  have 1: "loginUser example_compare example_env 100 [bob, carol]
       \<lparr>in_email = ''carol@example.com'', in_password = ''guess''\<rparr>
     = loginUser example_compare example_env 100 [bob, carol]
       \<lparr>in_email = ''nobody@example.com'', in_password = ''guess''\<rparr>"
    using A f a c n by simp
  have 2: "loginUser example_compare example_env 100 [bob, carol]
       \<lparr>in_email = ''bob@example.com'', in_password = ''Secret#123''\<rparr>
     = Inl (Thrown Error USER_INACTIVE)"
    using B fb ib by blast
  have 3: "loginUser example_compare example_env 100 [bob, carol]
       \<lparr>in_email = ''bob@example.com'', in_password = ''guess''\<rparr>
     = Inl (Thrown Error USER_INACTIVE)"
    using C fb ib by blast
  from 1 2 3 cb show ?thesis
    unfolding USER_INACTIVE_def by simp
qed

text \<open>
  The claim as written covers every stored account. For the inactive account of the
  example a wrong password is answered with 'Account is inactive. Please contact
  administrator', and an unknown e-mail with 'Invalid email or password'.
\<close>

theorem login_inactive_counterexample:
  "findOne [bob, carol] ''bob@example.com'' = Some bob
   \<and> \<not> example_compare ''guess'' (doc_password bob)
   \<and> findOne [bob, carol] ''nobody@example.com'' = None
   \<and> loginUser example_compare example_env 100 [bob, carol]
        \<lparr>in_email = ''bob@example.com'', in_password = ''guess''\<rparr>
      = Inl (Thrown Error ''Account is inactive. Please contact administrator'')
   \<and> loginUser example_compare example_env 100 [bob, carol]
        \<lparr>in_email = ''nobody@example.com'', in_password = ''guess''\<rparr>
      = Inl (Thrown Error ''Invalid email or password'')
   \<and> loginUser example_compare example_env 100 [bob, carol]
        \<lparr>in_email = ''bob@example.com'', in_password = ''guess''\<rparr>
      \<noteq> loginUser example_compare example_env 100 [bob, carol]
        \<lparr>in_email = ''nobody@example.com'', in_password = ''guess''\<rparr>"
  by (simp add: loginUser_def findOne_def bob_def carol_def example_compare_def
      USER_INACTIVE_def INVALID_CREDENTIALS_def)

text \<open>
  C7. A refresh token that verifies (right signature, not expired), whose embedded id
  finds no account or an account that is not active, is answered with the
  inactive-account error.
\<close>

theorem refresh_inactive_account:
  assumes "jwt_verify presented (JWT_REFRESH_SECRET cfg) now = Inr d"
    and "findById db (claims_userId (claims d)) = None
         \<or> (\<exists>u. findById db (claims_userId (claims d)) = Some u \<and> \<not> doc_isActive u)"
  shows "refreshAccessToken cfg now db presented = Inl (Thrown Error USER_INACTIVE)"
  using assms by (auto simp: refresh_verified)

theorem refresh_inactive_account_witness:
  "refreshAccessToken example_env 10
      [bob\<lparr>doc_refreshToken := Some (generateRefreshToken example_env 0 ''65b2'')\<rparr>, carol]
      (generateRefreshToken example_env 0 ''65b2'')
     = Inl (Thrown Error ''Account is inactive. Please contact administrator'')
   \<and> refreshAccessToken example_env 10 [carol] (generateRefreshToken example_env 0 ''65b2'')
     = Inl (Thrown Error ''Account is inactive. Please contact administrator'')"
proof -
  let ?t = "generateRefreshToken example_env 0 ''65b2''"
  let ?db = "[bob\<lparr>doc_refreshToken := Some ?t\<rparr>, carol]"
  have v: "jwt_verify ?t (JWT_REFRESH_SECRET example_env) 10
             = Inr \<lparr>claims = RefreshClaims ''65b2'', iat = 0, exp = REFRESH_TOKEN\<rparr>"
    by (simp add: refresh_token_verify REFRESH_TOKEN_def)
  have "findById ?db ''65b2'' = Some (bob\<lparr>doc_refreshToken := Some ?t\<rparr>)"
    by (simp add: findById_def bob_def)
  moreover have "\<not> doc_isActive (bob\<lparr>doc_refreshToken := Some ?t\<rparr>)"
    by (simp add: bob_def)
  ultimately have h: "findById ?db
        (claims_userId (claims \<lparr>claims = RefreshClaims ''65b2'', iat = 0, exp = REFRESH_TOKEN\<rparr>)) = None
      \<or> (\<exists>u. findById ?db
        (claims_userId (claims \<lparr>claims = RefreshClaims ''65b2'', iat = 0, exp = REFRESH_TOKEN\<rparr>)) = Some u
          \<and> \<not> doc_isActive u)"
    by simp
  have h': "findById [carol]
        (claims_userId (claims \<lparr>claims = RefreshClaims ''65b2'', iat = 0, exp = REFRESH_TOKEN\<rparr>)) = None
      \<or> (\<exists>u. findById [carol]
        (claims_userId (claims \<lparr>claims = RefreshClaims ''65b2'', iat = 0, exp = REFRESH_TOKEN\<rparr>)) = Some u
          \<and> \<not> doc_isActive u)"
    by (simp add: findById_def carol_def)
  from refresh_inactive_account [OF v h] refresh_inactive_account [OF v h'] show ?thesis
    by (simp add: USER_INACTIVE_def)
qed

text \<open>
  C9. A token signed with a secret other than the one the verification uses fails
  verification with the package's 'invalid signature' error, a value and not a crash:
  at the refresh endpoint the service turns it into the invalid-refresh-token error,
  and the authenticator answers 401 'Invalid token'. With two different secrets this
  is the case of an access token presented for refresh and of a refresh token
  presented as a bearer token.
\<close>

theorem wrong_secret_rejected:
  "(k \<noteq> JWT_REFRESH_SECRET cfg \<longrightarrow>
      jwt_verify (Signed k d) (JWT_REFRESH_SECRET cfg) now
        = Inl (Thrown JsonWebTokenError ''invalid signature'')
      \<and> refreshAccessToken cfg now db (Signed k d) = Inl (Thrown Error REFRESH_TOKEN_INVALID))
   \<and> (k \<noteq> JWT_SECRET cfg \<longrightarrow>
      jwt_verify (Signed k d) (JWT_SECRET cfg) now
        = Inl (Thrown JsonWebTokenError ''invalid signature'')
      \<and> authenticate cfg now (bearer (Signed k d)) = Json 401 TOKEN_INVALID)
   \<and> (JWT_SECRET cfg \<noteq> JWT_REFRESH_SECRET cfg \<longrightarrow>
      refreshAccessToken cfg now db (generateAccessToken cfg t0 p)
        = Inl (Thrown Error REFRESH_TOKEN_INVALID)
      \<and> authenticate cfg now (bearer (generateRefreshToken cfg t0 uid)) = Json 401 TOKEN_INVALID)"
  by (simp add: refresh_verify_failure authenticate_bearer generateAccessToken_def
      generateRefreshToken_def jwt_sign_def)

theorem wrong_secret_rejected_witness:
  "refreshAccessToken example_env 10 [bob, carol] (generateAccessToken example_env 0 alice_claims)
     = Inl (Thrown Error ''Invalid refresh token'')
   \<and> authenticate example_env 10 (bearer (generateRefreshToken example_env 0 ''65c3''))
     = Json 401 ''Invalid token''"
proof -
  have ne: "JWT_SECRET example_env \<noteq> JWT_REFRESH_SECRET example_env"
    by (simp add: example_env_def)
  from ne wrong_secret_rejected [of "JWT_SECRET example_env" example_env _ 10 "[bob, carol]"
      0 alice_claims "''65c3''"]
  show ?thesis
    by (simp add: REFRESH_TOKEN_INVALID_def TOKEN_INVALID_def)
qed

text \<open>
  C8. Logout resolves without an error, and so does a second logout on the collection
  it leaves, which changes nothing more. After either call the account with that id,
  when there is one, is the account as it was with its refresh token removed.
\<close>

theorem logout_idempotent:
  "\<exists>db1. logoutUser db uid = Inr db1 \<and> logoutUser db1 uid = Inr db1
     \<and> findById db1 uid = map_option (\<lambda>u. u\<lparr>doc_refreshToken := None\<rparr>) (findById db uid)"
  by (simp add: logoutUser_def unset_refreshToken_def findById_update_one update_one_twice)

theorem logout_idempotent_witness:
  "logoutUser [bob, carol\<lparr>doc_refreshToken := Some (Malformed ''t'')\<rparr>] ''65c3''
     = Inr [bob, carol]
   \<and> logoutUser [bob, carol] ''65c3'' = Inr [bob, carol]
   \<and> map_option doc_refreshToken (findById [bob, carol] ''65c3'') = Some None"
  using logout_idempotent [of "[bob, carol\<lparr>doc_refreshToken := Some (Malformed ''t'')\<rparr>]" "''65c3''"]
  by (simp add: logoutUser_def unset_refreshToken_def findById_def bob_def carol_def)

text \<open>
  C10. When refresh succeeds, the new access token is the one issued at that moment
  for the id, e-mail and role of the account as the collection holds it, and at every
  time before its expiry it verifies to exactly those three values; nothing but the id
  is read from the presented token. So after a change of the account's e-mail and role
  in the collection, the same refresh token yields an access token that verifies to
  the new e-mail and role.
\<close>

theorem refresh_uses_stored_account:
  assumes "refreshAccessToken cfg now db presented = Inr tok"
  shows "\<exists>d u. jwt_verify presented (JWT_REFRESH_SECRET cfg) now = Inr d
           \<and> findById db (claims_userId (claims d)) = Some u
           \<and> tok = generateAccessToken cfg now
                 \<lparr>userId = doc_id u, email = doc_email u, role = doc_role u\<rparr>
           \<and> (\<forall>t < now + ACCESS_TOKEN.
                 map_sum (\<lambda>x. x) claims (jwt_verify tok (JWT_SECRET cfg) t)
                   = Inr (AccessClaims
                       \<lparr>userId = doc_id u, email = doc_email u, role = doc_role u\<rparr>))
           \<and> (\<forall>e r. refreshAccessToken cfg now
                 (update_one (doc_id u) (\<lambda>x. x\<lparr>doc_email := e, doc_role := r\<rparr>) db) presented
               = Inr (generateAccessToken cfg now \<lparr>userId = doc_id u, email = e, role = r\<rparr>))
           \<and> (\<forall>e r. \<exists>tok'. refreshAccessToken cfg now
                 (update_one (doc_id u) (\<lambda>x. x\<lparr>doc_email := e, doc_role := r\<rparr>) db) presented
                   = Inr tok'
               \<and> (\<forall>t < now + ACCESS_TOKEN.
                     map_sum (\<lambda>x. x) claims (jwt_verify tok' (JWT_SECRET cfg) t)
                       = Inr (AccessClaims \<lparr>userId = doc_id u, email = e, role = r\<rparr>)))"
proof (cases "jwt_verify presented (JWT_REFRESH_SECRET cfg) now")
  case (Inl e)
  with assms show ?thesis by (simp add: refresh_verify_failure)
next
  case (Inr d)
  let ?i = "claims_userId (claims d)"
  from assms Inr obtain u where u: "findById db ?i = Some u" "doc_isActive u"
    "doc_refreshToken u = Some presented"
    "tok = generateAccessToken cfg now \<lparr>userId = doc_id u, email = doc_email u, role = doc_role u\<rparr>"
    by (auto simp: refresh_verified split: option.splits if_splits)
  have i: "doc_id u = ?i" using u(1) by (rule findById_Some_id)
  have dec: "\<forall>t < now + ACCESS_TOKEN.
      map_sum (\<lambda>x. x) claims (jwt_verify (generateAccessToken cfg now p) (JWT_SECRET cfg) t)
        = Inr (AccessClaims p)" for p
    by (simp add: generateAccessToken_def jwt_sign_def)
  have upd: "refreshAccessToken cfg now
          (update_one (doc_id u) (\<lambda>x. x\<lparr>doc_email := e, doc_role := r\<rparr>) db) presented
        = Inr (generateAccessToken cfg now \<lparr>userId = doc_id u, email = e, role = r\<rparr>)" for e r
    using u Inr by (simp add: refresh_verified findById_update_one i)
  have upd': "\<exists>tok'. refreshAccessToken cfg now
          (update_one (doc_id u) (\<lambda>x. x\<lparr>doc_email := e, doc_role := r\<rparr>) db) presented
            = Inr tok'
        \<and> (\<forall>t < now + ACCESS_TOKEN.
              map_sum (\<lambda>x. x) claims (jwt_verify tok' (JWT_SECRET cfg) t)
                = Inr (AccessClaims \<lparr>userId = doc_id u, email = e, role = r\<rparr>))" for e r
    using upd [where e = e and r = r] dec by simp
  have "tok = generateAccessToken cfg now
          \<lparr>userId = doc_id u, email = doc_email u, role = doc_role u\<rparr>
      \<and> (\<forall>t < now + ACCESS_TOKEN.
            map_sum (\<lambda>x. x) claims (jwt_verify tok (JWT_SECRET cfg) t)
              = Inr (AccessClaims
                  \<lparr>userId = doc_id u, email = doc_email u, role = doc_role u\<rparr>))"
    using u(4) dec by simp
  with Inr u(1) upd upd' show ?thesis by blast
qed

text \<open>
  Carol logged in as HR under her first e-mail; the collection then holds another
  e-mail and the role SUPER_ADMIN for her. The refresh token of that login yields an
  access token that verifies to the new values.
\<close>

theorem refresh_uses_stored_account_witness:
  "map_sum (\<lambda>x. x) claims
      (case refreshAccessToken example_env 10
          [bob, carol\<lparr>doc_refreshToken := Some (generateRefreshToken example_env 0 ''65c3'')\<rparr>]
          (generateRefreshToken example_env 0 ''65c3'') of
         Inl err \<Rightarrow> Inl err
       | Inr tok \<Rightarrow> jwt_verify tok (JWT_SECRET example_env) 500)
     = Inr (AccessClaims \<lparr>userId = ''65c3'', email = ''carol@example.com'', role = HR\<rparr>)
   \<and> map_sum (\<lambda>x. x) claims
      (case refreshAccessToken example_env 10
          (update_one ''65c3''
            (\<lambda>x. x\<lparr>doc_email := ''carol.admin@example.com'', doc_role := SUPER_ADMIN\<rparr>)
            [bob, carol\<lparr>doc_refreshToken := Some (generateRefreshToken example_env 0 ''65c3'')\<rparr>])
          (generateRefreshToken example_env 0 ''65c3'') of
         Inl err \<Rightarrow> Inl err
       | Inr tok \<Rightarrow> jwt_verify tok (JWT_SECRET example_env) 500)
     = Inr (AccessClaims
         \<lparr>userId = ''65c3'', email = ''carol.admin@example.com'', role = SUPER_ADMIN\<rparr>)"
proof -
  let ?t = "generateRefreshToken example_env 0 ''65c3''"
  let ?c = "carol\<lparr>doc_refreshToken := Some ?t\<rparr>"
  let ?db = "[bob, ?c]"
  let ?tok = "generateAccessToken example_env 10
         \<lparr>userId = ''65c3'', email = ''carol@example.com'', role = HR\<rparr>"
  have v: "jwt_verify ?t (JWT_REFRESH_SECRET example_env) 10
             = Inr \<lparr>claims = RefreshClaims ''65c3'', iat = 0, exp = REFRESH_TOKEN\<rparr>"
    by (simp add: refresh_token_verify REFRESH_TOKEN_def)
  have g: "findById ?db ''65c3'' = Some ?c"
    by (simp add: findById_def bob_def carol_def)
  have h: "refreshAccessToken example_env 10 ?db ?t = Inr ?tok"
    by (simp add: refresh_verified [OF v] g) (simp add: carol_def)
  have l: "(500::nat) < 10 + ACCESS_TOKEN" by (simp add: ACCESS_TOKEN_def)
  from refresh_uses_stored_account [OF h] obtain d u where
    d: "jwt_verify ?t (JWT_REFRESH_SECRET example_env) 10 = Inr d"
    and u: "findById ?db (claims_userId (claims d)) = Some u"
    and 1: "\<forall>t < 10 + ACCESS_TOKEN.
              map_sum (\<lambda>x. x) claims (jwt_verify ?tok (JWT_SECRET example_env) t)
                = Inr (AccessClaims
                    \<lparr>userId = doc_id u, email = doc_email u, role = doc_role u\<rparr>)"
    and 2: "\<forall>e r. \<exists>tok'. refreshAccessToken example_env 10
              (update_one (doc_id u) (\<lambda>x. x\<lparr>doc_email := e, doc_role := r\<rparr>) ?db) ?t
                = Inr tok'
            \<and> (\<forall>t < 10 + ACCESS_TOKEN.
                  map_sum (\<lambda>x. x) claims (jwt_verify tok' (JWT_SECRET example_env) t)
                    = Inr (AccessClaims \<lparr>userId = doc_id u, email = e, role = r\<rparr>))"
    by blast
  from d v have "claims_userId (claims d) = ''65c3''" by auto
  with u g have u: "u = ?c" by simp
  then have i: "doc_id u = ''65c3''" "doc_email u = ''carol@example.com''" "doc_role u = HR"
    by (simp_all add: carol_def)
  from 1 l i have A: "map_sum (\<lambda>x. x) claims (jwt_verify ?tok (JWT_SECRET example_env) 500)
      = Inr (AccessClaims \<lparr>userId = ''65c3'', email = ''carol@example.com'', role = HR\<rparr>)"
    by simp
  from 2 [rule_format, where e = "''carol.admin@example.com''" and r = SUPER_ADMIN] l i
  obtain tok' where B: "refreshAccessToken example_env 10
        (update_one ''65c3''
          (\<lambda>x. x\<lparr>doc_email := ''carol.admin@example.com'', doc_role := SUPER_ADMIN\<rparr>) ?db) ?t
        = Inr tok'"
      "map_sum (\<lambda>x. x) claims (jwt_verify tok' (JWT_SECRET example_env) 500)
        = Inr (AccessClaims
            \<lparr>userId = ''65c3'', email = ''carol.admin@example.com'', role = SUPER_ADMIN\<rparr>)"
    by auto
  from A B h show ?thesis by simp
qed

lemma refresh_mismatch:
  assumes "jwt_verify presented (JWT_REFRESH_SECRET cfg) now = Inr d"
    and "findById db (claims_userId (claims d)) = Some u" and "doc_isActive u"
    and "doc_refreshToken u \<noteq> Some presented"
  shows "refreshAccessToken cfg now db presented = Inl (Thrown Error REFRESH_TOKEN_INVALID)"
  using assms by (simp add: refresh_verified)

lemma refresh_after_login:
  assumes l: "loginUser compare cfg t2 db input = Inr (r, db')"
    and ne: "presented \<noteq> refreshToken r"
    and uid: "\<And>d. jwt_verify presented (JWT_REFRESH_SECRET cfg) now = Inr d
                \<Longrightarrow> claims_userId (claims d) = pub_id (user r)"
  shows "refreshAccessToken cfg now db' presented = Inl (Thrown Error REFRESH_TOKEN_INVALID)"
proof (cases "jwt_verify presented (JWT_REFRESH_SECRET cfg) now")
  case (Inl e)
  then show ?thesis by (rule refresh_verify_failure)
next
  case (Inr d)
  from l obtain u where u: "findOne db (in_email input) = Some u" "doc_isActive u"
    "compare (in_password input) (doc_password u)"
    by (rule loginUser_Inr)
  let ?u' = "u\<lparr>doc_refreshToken := Some (generateRefreshToken cfg t2 (doc_id u))\<rparr>"
  from l u have r: "refreshToken r = generateRefreshToken cfg t2 (doc_id u)"
    "pub_id (user r) = doc_id u" "db' = save ?u' db"
    by (auto simp: loginUser_success)
  have "findById db' (doc_id u) = Some ?u'"
    unfolding r(3) using u(1) by (rule findById_save) simp
  moreover have "claims_userId (claims d) = doc_id u"
    using uid [OF Inr] r(2) by simp
  ultimately show ?thesis
    using Inr u(2) ne r(1) by (simp add: refresh_verified)
qed

lemma refresh_superseded:
  assumes l1: "loginUser compare cfg t1 db input = Inr (r1, db1)"
    and l2: "loginUser compare' cfg t2 db1 input' = Inr (r2, db2)"
    and e: "in_email input' = in_email input" and t: "t1 \<noteq> t2"
  shows "refreshAccessToken cfg now db2 (refreshToken r1)
           = Inl (Thrown Error REFRESH_TOKEN_INVALID)"
proof -
  from l1 obtain u where u: "findOne db (in_email input) = Some u" "doc_isActive u"
    "compare (in_password input) (doc_password u)"
    by (rule loginUser_Inr)
  let ?u1 = "u\<lparr>doc_refreshToken := Some (generateRefreshToken cfg t1 (doc_id u))\<rparr>"
  from l1 u have r1: "refreshToken r1 = generateRefreshToken cfg t1 (doc_id u)"
    "db1 = save ?u1 db"
    by (auto simp: loginUser_success)
  have "doc_email ?u1 = in_email input"
    using findOne_Some_email [OF u(1)] by simp
  then have f1: "findOne db1 (in_email input') = Some ?u1"
    unfolding r1(2) e using u(1) by (intro findOne_save) simp_all
  from l2 obtain u2 where u2: "findOne db1 (in_email input') = Some u2" "doc_isActive u2"
    "compare' (in_password input') (doc_password u2)"
    by (rule loginUser_Inr)
  with f1 have "u2 = ?u1" by simp
  with l2 u2 have r2: "refreshToken r2 = generateRefreshToken cfg t2 (doc_id u)"
    "pub_id (user r2) = doc_id u"
    by (auto simp: loginUser_success)
  have ne: "refreshToken r1 \<noteq> refreshToken r2"
    using t by (simp add: r1 r2 generateRefreshToken_def jwt_sign_def)
  show ?thesis
    using l2 ne
  proof (rule refresh_after_login)
    fix d
    assume "jwt_verify (refreshToken r1) (JWT_REFRESH_SECRET cfg) now = Inr d"
    then show "claims_userId (claims d) = pub_id (user r2)"
      by (auto simp: r1 r2 refresh_token_verify split: if_splits)
  qed
qed

lemma refresh_after_logout:
  assumes v: "jwt_verify presented (JWT_REFRESH_SECRET cfg) now = Inr d"
    and u: "findById db (claims_userId (claims d)) = Some u" "doc_isActive u"
    and o: "logoutUser db (claims_userId (claims d)) = Inr db'"
  shows "refreshAccessToken cfg now db' presented = Inl (Thrown Error REFRESH_TOKEN_INVALID)"
proof -
  from o have "findById db' (claims_userId (claims d)) = Some (u\<lparr>doc_refreshToken := None\<rparr>)"
    using u(1) by (auto simp: logoutUser_def unset_refreshToken_def findById_update_one)
  with v u(2) show ?thesis by (simp add: refresh_verified)
qed

text \<open>
  C2, as the code has it. An account's document has one optional refresh-token field,
  so it holds no fingerprint or one. A refresh request is answered with the
  invalid-refresh-token error when the token fails verification, and when it verifies,
  its id finds an active account, and it differs from that account's stored token. That
  covers the refresh token of an earlier login after a later login of the same account
  at another second, and any verifying token after logout cleared the field of an
  active account. (When the id finds no account or an inactive one, the answer is the
  inactive-account error, whatever the stored token is.)
\<close>

theorem refresh_fingerprint_mismatch:
  "card (set_option (doc_refreshToken a)) \<le> 1
   \<and> (jwt_verify presented (JWT_REFRESH_SECRET cfg) now = Inl err \<longrightarrow>
        refreshAccessToken cfg now db presented = Inl (Thrown Error REFRESH_TOKEN_INVALID))
   \<and> (jwt_verify presented (JWT_REFRESH_SECRET cfg) now = Inr d
        \<and> findById db (claims_userId (claims d)) = Some u \<and> doc_isActive u
        \<and> doc_refreshToken u \<noteq> Some presented \<longrightarrow>
        refreshAccessToken cfg now db presented = Inl (Thrown Error REFRESH_TOKEN_INVALID))
   \<and> (loginUser compare cfg t1 db input = Inr (r1, db1)
        \<and> loginUser compare cfg t2 db1 input = Inr (r2, db2) \<and> t1 \<noteq> t2 \<longrightarrow>
        refreshAccessToken cfg now db2 (refreshToken r1)
          = Inl (Thrown Error REFRESH_TOKEN_INVALID))
   \<and> (jwt_verify presented (JWT_REFRESH_SECRET cfg) now = Inr d
        \<and> findById db (claims_userId (claims d)) = Some u \<and> doc_isActive u
        \<and> logoutUser db (claims_userId (claims d)) = Inr db' \<longrightarrow>
        refreshAccessToken cfg now db' presented = Inl (Thrown Error REFRESH_TOKEN_INVALID))"
proof (intro conjI impI)
  show "card (set_option (doc_refreshToken a)) \<le> 1"
    by (cases "doc_refreshToken a") simp_all
qed (auto intro: refresh_verify_failure refresh_mismatch refresh_after_logout
      refresh_superseded [where input' = input and compare' = compare])

theorem refresh_fingerprint_mismatch_witness:
  "refreshAccessToken example_env 300 [bob, carol] (Malformed ''garbage'')
     = Inl (Thrown Error ''Invalid refresh token'')
   \<and> refreshAccessToken example_env 300 [bob, carol] (generateRefreshToken example_env 100 ''65c3'')
     = Inl (Thrown Error ''Invalid refresh token'')
   \<and> (\<exists>r1 db1 r2 db2.
        loginUser example_compare example_env 100 [bob, carol]
          \<lparr>in_email = ''carol@example.com'', in_password = ''Passw0rd!x''\<rparr> = Inr (r1, db1)
      \<and> loginUser example_compare example_env 200 db1
          \<lparr>in_email = ''carol@example.com'', in_password = ''Passw0rd!x''\<rparr> = Inr (r2, db2)
      \<and> refreshAccessToken example_env 300 db2 (refreshToken r1)
          = Inl (Thrown Error ''Invalid refresh token''))
   \<and> (\<exists>db'. logoutUser
          [bob, carol\<lparr>doc_refreshToken := Some (generateRefreshToken example_env 100 ''65c3'')\<rparr>]
          ''65c3'' = Inr db'
      \<and> refreshAccessToken example_env 300 db' (generateRefreshToken example_env 100 ''65c3'')
          = Inl (Thrown Error ''Invalid refresh token''))"
proof -
  let ?t = "generateRefreshToken example_env 100 ''65c3''"
  let ?d = "\<lparr>claims = RefreshClaims ''65c3'', iat = 100, exp = 100 + REFRESH_TOKEN\<rparr>"
  let ?in = "\<lparr>in_email = ''carol@example.com'', in_password = ''Passw0rd!x''\<rparr>"
  let ?carol' = "carol\<lparr>doc_refreshToken := Some ?t\<rparr>"
  have m: "jwt_verify (Malformed ''garbage'') (JWT_REFRESH_SECRET example_env) 300
             = Inl (Thrown JsonWebTokenError ''jwt malformed'')"
    by simp
  have v: "jwt_verify ?t (JWT_REFRESH_SECRET example_env) 300 = Inr ?d"
    by (simp add: refresh_token_verify REFRESH_TOKEN_def)
  have i: "claims_userId (claims ?d) = ''65c3''" by simp
  have g: "findById [bob, carol] (claims_userId (claims ?d)) = Some carol"
    "findById [bob, ?carol'] (claims_userId (claims ?d)) = Some ?carol'"
    by (simp_all add: findById_def bob_def carol_def)
  have a: "doc_isActive carol" "doc_isActive ?carol'" by (simp_all add: carol_def)
  have n: "doc_refreshToken carol \<noteq> Some ?t" by (simp add: carol_def)
  have f: "findOne [bob, carol] (in_email ?in) = Some carol"
    by (simp add: findOne_def bob_def carol_def)
  have c: "example_compare (in_password ?in) (doc_password carol)"
    by (simp add: example_compare_def carol_def)
  obtain r1 db1 where l1: "loginUser example_compare example_env 100 [bob, carol] ?in = Inr (r1, db1)"
    and db1: "db1 = save (carol\<lparr>doc_refreshToken :=
                Some (generateRefreshToken example_env 100 (doc_id carol))\<rparr>) [bob, carol]"
    using loginUser_success [where compare = example_compare and cfg = example_env
        and now = 100, OF f a(1) c] by blast
  have "findOne db1 (in_email ?in) = Some (carol\<lparr>doc_refreshToken :=
                Some (generateRefreshToken example_env 100 (doc_id carol))\<rparr>)"
    unfolding db1 using f by (rule findOne_save) (simp_all add: carol_def)
  then obtain r2 db2 where
    l2: "loginUser example_compare example_env 200 db1 ?in = Inr (r2, db2)"
    using loginUser_success [where compare = example_compare and cfg = example_env
        and now = 200 and db = db1 and input = ?in] a(1) c by force
  obtain db' where o: "logoutUser [bob, ?carol'] (claims_userId (claims ?d)) = Inr db'"
    by (simp add: logoutUser_def)
  have t: "(100::nat) \<noteq> 200" by simp
  note A = refresh_fingerprint_mismatch [where cfg = example_env and now = 300
      and presented = "Malformed ''garbage''" and db = "[bob, carol]"]
  note B = refresh_fingerprint_mismatch [where cfg = example_env and now = 300
      and presented = ?t and d = ?d and db = "[bob, carol]" and u = carol
      and compare = example_compare and ?t1.0 = 100 and ?t2.0 = 200 and input = ?in
      and ?r1.0 = r1 and ?db1.0 = db1 and ?r2.0 = r2 and ?db2.0 = db2]
  note C = refresh_fingerprint_mismatch [where cfg = example_env and now = 300
      and presented = ?t and d = ?d and db = "[bob, ?carol']" and u = ?carol' and db' = db']
  have 1: "refreshAccessToken example_env 300 [bob, carol] (Malformed ''garbage'')
             = Inl (Thrown Error REFRESH_TOKEN_INVALID)"
    using A m by blast
  have 2: "refreshAccessToken example_env 300 [bob, carol] ?t
             = Inl (Thrown Error REFRESH_TOKEN_INVALID)"
    using B v g(1) a(1) n by blast
  have 3: "refreshAccessToken example_env 300 db2 (refreshToken r1)
             = Inl (Thrown Error REFRESH_TOKEN_INVALID)"
    using B l1 l2 t by blast
  have 4: "refreshAccessToken example_env 300 db' ?t
             = Inl (Thrown Error REFRESH_TOKEN_INVALID)"
    using C v g(2) a(2) o by blast
  from 1 2 3 4 l1 l2 o i show ?thesis
    unfolding REFRESH_TOKEN_INVALID_def by auto
qed

text \<open>
  The claim as written covers every account. Here the presented token is validly
  signed and unexpired and differs from the fingerprint stored for its account, but
  the account is not active: refresh answers with the inactive-account error.
\<close>

theorem refresh_mismatch_counterexample:
  "jwt_verify (generateRefreshToken example_env 0 ''65b2'') (JWT_REFRESH_SECRET example_env) 10
     = Inr \<lparr>claims = RefreshClaims ''65b2'', iat = 0, exp = REFRESH_TOKEN\<rparr>
   \<and> findById
        [bob\<lparr>doc_refreshToken := Some (generateRefreshToken example_env 5 ''65b2'')\<rparr>, carol]
        ''65b2''
     = Some (bob\<lparr>doc_refreshToken := Some (generateRefreshToken example_env 5 ''65b2'')\<rparr>)
   \<and> generateRefreshToken example_env 5 ''65b2'' \<noteq> generateRefreshToken example_env 0 ''65b2''
   \<and> refreshAccessToken example_env 10
        [bob\<lparr>doc_refreshToken := Some (generateRefreshToken example_env 5 ''65b2'')\<rparr>, carol]
        (generateRefreshToken example_env 0 ''65b2'')
     = Inl (Thrown Error ''Account is inactive. Please contact administrator'')
   \<and> refreshAccessToken example_env 10
        [bob\<lparr>doc_refreshToken := Some (generateRefreshToken example_env 5 ''65b2'')\<rparr>, carol]
        (generateRefreshToken example_env 0 ''65b2'')
     \<noteq> Inl (Thrown Error REFRESH_TOKEN_INVALID)"
  by (simp add: refreshAccessToken_def refresh_try_def findById_def generateRefreshToken_def
      jwt_sign_def REFRESH_TOKEN_def bob_def example_env_def instanceof_def
      USER_INACTIVE_def REFRESH_TOKEN_INVALID_def)

end
